theory Spec2Isabelle
  imports Main
begin

section \<open>JavaScript values and string primitives\<close>

text \<open>
  The query layer of dj-postgres-mcp (\<^verbatim>\<open>src/features/database/QueryExecutor.ts\<close>, the
  tool handlers next to it and \<^verbatim>\<open>src/features/shared/errors.ts\<close>) is embedded
  function by function. Strings are \<^typ>\<open>string\<close>; \<^verbatim>\<open>substring(0, n)\<close> is
  \<^term>\<open>take n\<close>, \<^verbatim>\<open>a.includes(b)\<close> is the contiguous-substring test
  \<open>includes_str a b\<close>. A thrown exception is the left summand of the result.
\<close>

text \<open>Primitive JavaScript values; numbers are the integers.\<close>

datatype cell = CUndefined | CNull | CBool bool | CInt int | CText string

text \<open>A value as it arrives in a tool call's arguments: a primitive, an array or an object.\<close>

datatype jsvalue = JPrim cell | JArray "jsvalue list" | JObject "(string \<times> jsvalue) list"

text \<open>ToBoolean, as used by \<^verbatim>\<open>!x\<close>, \<^verbatim>\<open>x && y\<close>, \<^verbatim>\<open>x || y\<close> and \<^verbatim>\<open>if (x)\<close>.\<close>

fun truthy_cell :: "cell \<Rightarrow> bool" where
  "truthy_cell CUndefined = False"
| "truthy_cell CNull = False"
| "truthy_cell (CBool b) = b"
| "truthy_cell (CInt n) = (n \<noteq> 0)"
| "truthy_cell (CText s) = (s \<noteq> [])"

fun truthy :: "jsvalue \<Rightarrow> bool" where
  "truthy (JPrim c) = truthy_cell c"
| "truthy (JArray xs) = True"
| "truthy (JObject kvs) = True"

text \<open>The \<^verbatim>\<open>typeof\<close> operator.\<close>

fun typeof :: "jsvalue \<Rightarrow> string" where
  "typeof (JPrim CUndefined) = ''undefined''"
| "typeof (JPrim CNull) = ''object''"
| "typeof (JPrim (CBool b)) = ''boolean''"
| "typeof (JPrim (CInt n)) = ''number''"
| "typeof (JPrim (CText s)) = ''string''"
| "typeof (JArray xs) = ''object''"
| "typeof (JObject kvs) = ''object''"

fun isArray :: "jsvalue \<Rightarrow> bool" where
  "isArray (JArray xs) = True"
| "isArray v = False"

text \<open>\<^verbatim>\<open>s.startsWith(p)\<close> and \<^verbatim>\<open>s.includes(p)\<close> on strings.\<close>

fun starts_with :: "string \<Rightarrow> string \<Rightarrow> bool" where
  "starts_with s [] = True"
| "starts_with [] (p # ps) = False"
| "starts_with (c # cs) (p # ps) = (c = p \<and> starts_with cs ps)"

fun includes_str :: "string \<Rightarrow> string \<Rightarrow> bool" where
  "includes_str [] p = (p = [])"
| "includes_str (c # cs) p = (starts_with (c # cs) p \<or> includes_str cs p)"

text \<open>
  Number-to-string conversion of an integer, as a template literal or \<^verbatim>\<open>join\<close>
  performs it: the decimal digits, with a leading minus sign for a negative number. (This is
  ECMAScript's rendering for every integer of magnitude below \<open>10^21\<close>, which covers
  all 32-bit type identifiers.)
\<close>

definition digit_char :: "nat \<Rightarrow> char" where
  "digit_char d = ''0123456789'' ! (d mod 10)"

function nat_to_decimal :: "nat \<Rightarrow> string" where
  "nat_to_decimal n = (if n < 10 then [digit_char n] else nat_to_decimal (n div 10) @ [digit_char (n mod 10)])"
  by pat_completeness auto
termination
  by (relation "measure (\<lambda>n. n)") auto

declare nat_to_decimal.simps [simp del]

definition number_to_string :: "int \<Rightarrow> string" where
  "number_to_string i = (if i < 0 then CHR ''-'' # nat_to_decimal (nat (- i)) else nat_to_decimal (nat i))"

section \<open>Classified errors (errors.ts)\<close>

datatype ErrorCode =
    INVALID_CONNECTION_STRING
  | CONNECTION_FAILED
  | AUTHENTICATION_FAILED
  | QUERY_ERROR
  | TIMEOUT
  | PERMISSION_DENIED
  | TABLE_NOT_FOUND
  | INVALID_PARAMS
  | NO_CONNECTION

text \<open>\<^verbatim>\<open>ManagedError(code, message, details?)\<close>; an omitted \<^verbatim>\<open>details\<close> is \<open>None\<close>.\<close>

record ManagedError =
  code :: ErrorCode
  message :: string
  details :: "(string \<times> jsvalue) list option"

text \<open>
  What a call into the \<^verbatim>\<open>pg\<close> client throws: an \<^verbatim>\<open>Error\<close> object with its
  message, or some other value, carried by its \<^verbatim>\<open>String(...)\<close> rendering.
\<close>

datatype thrown = ErrorObject string | NonError string

text \<open>
  A failure of an operation: a classified error, a client exception passed on as it is, or a
  TypeError of the JavaScript runtime.
\<close>

datatype failure = Managed ManagedError | Raw thrown | TypeError

section \<open>The type catalog (QueryExecutor.ts, lines 7-49 and 71)\<close>

definition PG_DATA_TYPES :: "(int \<times> string) list" where
  "PG_DATA_TYPES =
    [(16, ''bool''), (17, ''bytea''), (18, ''char''), (19, ''name''), (20, ''int8''),
     (21, ''int2''), (23, ''int4''), (25, ''text''), (26, ''oid''), (114, ''json''),
     (700, ''float4''), (701, ''float8''), (1000, ''_bool''), (1001, ''_bytea''),
     (1002, ''_char''), (1003, ''_name''), (1005, ''_int2''), (1007, ''_int4''),
     (1009, ''_text''), (1014, ''_bpchar''), (1015, ''_varchar''), (1016, ''_int8''),
     (1021, ''_float4''), (1022, ''_float8''), (1042, ''bpchar''), (1043, ''varchar''),
     (1082, ''date''), (1083, ''time''), (1114, ''timestamp''), (1115, ''_timestamp''),
     (1184, ''timestamptz''), (1185, ''_timestamptz''), (1186, ''interval''),
     (1187, ''_interval''), (1231, ''_numeric''), (1263, ''_cstring''), (1700, ''numeric''),
     (2950, ''uuid''), (2951, ''_uuid''), (3802, ''jsonb''), (3807, ''_jsonb'')]"

text \<open>
  \<^verbatim>\<open>PG_DATA_TYPES[id] || `oid:${id}`\<close>: the table entry when there is one and it is a
  non-empty string, the fallback otherwise.
\<close>

definition resolveTypeName :: "int \<Rightarrow> string" where
  "resolveTypeName typeId =
     (case map_of PG_DATA_TYPES typeId of
        Some n \<Rightarrow> if n \<noteq> [] then n else ''oid:'' @ number_to_string typeId
      | None \<Rightarrow> ''oid:'' @ number_to_string typeId)"

section \<open>The client, the clock and the trace of effects\<close>

text \<open>A result row: column names with their values; \<^verbatim>\<open>row.k\<close> of a missing column is undefined.\<close>

type_synonym row = "(string \<times> cell) list"

definition row_get :: "row \<Rightarrow> string \<Rightarrow> cell" where
  "row_get r k = (case map_of r k of Some v \<Rightarrow> v | None \<Rightarrow> CUndefined)"

text \<open>A field descriptor of the \<^verbatim>\<open>pg\<close> client's result.\<close>

record pg_field =
  field_name :: string
  field_dataTypeID :: int

text \<open>
  The result object of \<^verbatim>\<open>client.query\<close>: \<^verbatim>\<open>rowCount\<close> may be null,
  \<^verbatim>\<open>command\<close> and \<^verbatim>\<open>fields\<close> may be missing.
\<close>

record pg_result =
  pg_rows :: "row list"
  pg_rowCount :: "int option"
  pg_command :: "string option"
  pg_fields :: "pg_field list option"

text \<open>
  What \<^verbatim>\<open>client.query\<close> resolves with: one result object or, for a text of several
  statements sent without values, the array of their results. The members
  \<^verbatim>\<open>rows\<close>, \<^verbatim>\<open>rowCount\<close>, \<^verbatim>\<open>command\<close> and \<^verbatim>\<open>fields\<close> read from an array are
  undefined.
\<close>

datatype pg_response = Result pg_result | Results "pg_result list"

fun response_rows :: "pg_response \<Rightarrow> row list option" where
  "response_rows (Result r) = Some (pg_rows r)"
| "response_rows (Results rs) = None"

fun response_rowCount :: "pg_response \<Rightarrow> cell" where
  "response_rowCount (Result r) = (case pg_rowCount r of Some n \<Rightarrow> CInt n | None \<Rightarrow> CNull)"
| "response_rowCount (Results rs) = CUndefined"

fun response_command :: "pg_response \<Rightarrow> cell" where
  "response_command (Result r) = (case pg_command r of Some c \<Rightarrow> CText c | None \<Rightarrow> CUndefined)"
| "response_command (Results rs) = CUndefined"

fun response_fields :: "pg_response \<Rightarrow> pg_field list option" where
  "response_fields (Result r) = pg_fields r"
| "response_fields (Results rs) = None"

text \<open>
  The world a call runs in, with state \<open>'s\<close>: the wall clock \<^verbatim>\<open>Date.now()\<close> in
  milliseconds and the three methods of the client that the query layer uses. The second
  argument of \<open>client_query\<close> is the statement text, the third its values.
\<close>

record 's env =
  Date_now :: "'s \<Rightarrow> int"
  client_connect :: "'s \<Rightarrow> thrown option \<times> 's"
  client_query :: "'s \<Rightarrow> string \<Rightarrow> jsvalue \<Rightarrow> (thrown + pg_response) \<times> 's"
  client_end :: "'s \<Rightarrow> 's"

text \<open>
  What a call does besides returning, in order: the calls of \<^verbatim>\<open>log\<close> (message and
  data) and the calls of the client's methods.
\<close>

datatype event =
    Log string "(string \<times> jsvalue) list"
  | Connect
  | Query string jsvalue
  | End

section \<open>executeQuery (QueryExecutor.ts, lines 52-120)\<close>

record field_info =
  name :: string
  dataTypeID :: int
  dataTypeName :: string

text \<open>
  The result envelope of types.ts; its \<^verbatim>\<open>fields\<close> member is \<open>qr_fields\<close> here, and
  \<^verbatim>\<open>rows\<close> is \<open>None\<close> when it is undefined.
\<close>

record QueryResult =
  rows :: "row list option"
  rowCount :: int
  command :: string
  qr_fields :: "field_info list"
  executionTime :: int

text \<open>\<^verbatim>\<open>params?.length || 0\<close>.\<close>

fun paramCount :: "jsvalue \<Rightarrow> int" where
  "paramCount (JArray xs) = int (length xs)"
| "paramCount (JPrim (CText t)) = int (length t)"
| "paramCount v = 0"

text \<open>\<^verbatim>\<open>error instanceof Error ? error.message : String(error)\<close>.\<close>

fun errorMessage :: "thrown \<Rightarrow> string" where
  "errorMessage (ErrorObject m) = m"
| "errorMessage (NonError r) = r"

text \<open>The \<^verbatim>\<open>catch\<close> block: the classified error for a failed statement.\<close>

definition classify :: "string \<Rightarrow> string \<Rightarrow> int \<Rightarrow> ManagedError" where
  "classify query msg elapsed =
     (if includes_str msg ''permission denied'' then
        \<lparr>code = PERMISSION_DENIED,
         message = ''Permission denied for this operation'',
         details = Some [(''query'', JPrim (CText (take 100 query)))]\<rparr>
      else if includes_str msg ''does not exist'' then
        \<lparr>code = TABLE_NOT_FOUND,
         message = msg,
         details = Some [(''query'', JPrim (CText (take 100 query)))]\<rparr>
      else if includes_str msg ''syntax error'' then
        \<lparr>code = QUERY_ERROR,
         message = ''SQL syntax error: '' @ msg,
         details = Some [(''query'', JPrim (CText (take 100 query)))]\<rparr>
      else
        \<lparr>code = QUERY_ERROR,
         message = ''Query execution failed: '' @ msg,
         details = Some [(''query'', JPrim (CText (take 100 query))),
                         (''executionTime'', JPrim (CInt elapsed))]\<rparr>)"

definition executeQuery ::
  "'s env \<Rightarrow> 's \<Rightarrow> string \<Rightarrow> jsvalue \<Rightarrow> (failure + QueryResult) \<times> event list \<times> 's" where
  "executeQuery env s query params =
     (let startTime = Date_now env s;
          log1 = Log ''QueryExecutor: Executing query''
                   [(''command'', JPrim (CText (take 50 query))),
                    (''paramCount'', JPrim (CInt (paramCount params)))];
          values = (if truthy params then params else JArray []);
          (outcome, s') = client_query env s query values
      in case outcome of
           Inr result \<Rightarrow>
             (let executionTime = Date_now env s' - startTime;
                  fields = (case response_fields result of
                              Some fs \<Rightarrow>
                                map (\<lambda>field. \<lparr>name = field_name field,
                                              dataTypeID = field_dataTypeID field,
                                              dataTypeName = resolveTypeName (field_dataTypeID field)\<rparr>) fs
                            | None \<Rightarrow> []);
                  log2 = Log ''QueryExecutor: Query completed''
                           [(''rowCount'', JPrim (response_rowCount result)),
                            (''executionTime'', JPrim (CInt executionTime)),
                            (''command'', JPrim (response_command result))]
              in (Inr \<lparr>rows = response_rows result,
                       rowCount = (case response_rowCount result of
                                     CInt n \<Rightarrow> if n \<noteq> 0 then n else 0 | _ \<Rightarrow> 0),
                       command = (case response_command result of
                                    CText c \<Rightarrow> if c \<noteq> [] then c else ''UNKNOWN''
                                  | _ \<Rightarrow> ''UNKNOWN''),
                       qr_fields = fields,
                       executionTime = executionTime\<rparr>,
                  [log1, Query query values, log2], s'))
         | Inl error \<Rightarrow>
             (Inl (Managed (classify query (errorMessage error) (Date_now env s' - startTime))),
              [log1, Query query values], s'))"

section \<open>listTables (QueryExecutor.ts, lines 122-151)\<close>

text \<open>A template literal spanning several source lines: the lines, separated by line feeds.\<close>

fun template :: "string list \<Rightarrow> string" where
  "template [] = []"
| "template [l] = l"
| "template (l # ls) = l @ CHR 0x0A # template ls"

record TableInfo =
  schema_name :: cell
  table_name :: cell
  table_owner :: cell
  has_indexes :: cell
  has_triggers :: cell




section \<open>describeTable (QueryExecutor.ts, lines 153-234)\<close>

record ColumnInfo =
  column_name :: cell
  data_type :: cell
  is_nullable :: cell
  column_default :: cell
  character_maximum_length :: cell
  numeric_precision :: cell
  numeric_scale :: cell
  is_primary_key :: bool

record IndexInfo =
  index_name :: cell
  index_definition :: cell
  is_primary :: bool
  is_unique :: bool

text \<open>The members \<^verbatim>\<open>schema\<close>, \<^verbatim>\<open>table\<close>, \<^verbatim>\<open>columns\<close> and \<^verbatim>\<open>indexes\<close> of types.ts.\<close>

record TableDescription =
  td_schema :: string
  td_table :: string
  td_columns :: "ColumnInfo list"
  td_indexes :: "IndexInfo list"

definition columnQuery :: string where
  "columnQuery = template
     [[],
      ''      SELECT '',
      ''        column_name,'',
      ''        data_type,'',
      ''        is_nullable,'',
      ''        column_default,'',
      ''        character_maximum_length,'',
      ''        numeric_precision,'',
      ''        numeric_scale'',
      ''      FROM information_schema.columns '',
      ''      WHERE table_schema = $1 AND table_name = $2'',
      ''      ORDER BY ordinal_position'',
      ''    '']"

definition indexQuery :: string where
  "indexQuery = template
     [[],
      ''      SELECT '',
      ''        indexname as index_name,'',
      ''        indexdef as index_definition'',
      ''      FROM pg_indexes '',
      ''      WHERE schemaname = $1 AND tablename = $2'',
      ''    '']"

definition pkQuery :: string where
  "pkQuery = template
     [[],
      ''      SELECT '',
      ''        kcu.column_name'',
      ''      FROM information_schema.table_constraints tc'',
      ''      JOIN information_schema.key_column_usage kcu '',
      ''        ON tc.constraint_name = kcu.constraint_name'',
      ''        AND tc.table_schema = kcu.table_schema'',
      ''      WHERE tc.constraint_type = 'PRIMARY KEY'' @ [CHR 0x27],
      ''        AND tc.table_schema = $1'',
      ''        AND tc.table_name = $2'',
      ''    '']"

text \<open>
  \<^verbatim>\<open>new Set(xs)\<close>, as the list of its members in insertion order: a value that is
  already a member is not added again.
\<close>

definition js_Set :: "'a list \<Rightarrow> 'a list" where
  "js_Set xs = fold (\<lambda>x members. if x \<in> set members then members else members @ [x]) xs []"

text \<open>
  \<^verbatim>\<open>xs.join(sep)\<close>: undefined and null members are rendered as the empty string, the
  others by their string conversion.
\<close>

fun join_text :: "cell \<Rightarrow> string" where
  "join_text CUndefined = []"
| "join_text CNull = []"
| "join_text (CBool b) = (if b then ''true'' else ''false'')"
| "join_text (CInt n) = number_to_string n"
| "join_text (CText t) = t"

fun join :: "cell list \<Rightarrow> string \<Rightarrow> string" where
  "join [] sep = []"
| "join [x] sep = join_text x"
| "join (x # xs) sep = join_text x @ sep @ join xs sep"

text \<open>\<^verbatim>\<open>toLowerCase\<close>, on the letters A to Z.\<close>

definition toLowerCase :: "string \<Rightarrow> string" where
  "toLowerCase t =
     map (\<lambda>c. case map_of (zip ''ABCDEFGHIJKLMNOPQRSTUVWXYZ'' ''abcdefghijklmnopqrstuvwxyz'') c of
                 Some l \<Rightarrow> l | None \<Rightarrow> c) t"

text \<open>
  One index row of the result. Calling \<^verbatim>\<open>includes\<close> or \<^verbatim>\<open>toLowerCase\<close> on an
  \<^verbatim>\<open>index_definition\<close> that is not a string raises a TypeError: the result is \<open>None\<close>.
\<close>

definition indexInfo :: "cell list \<Rightarrow> row \<Rightarrow> IndexInfo option" where
  "indexInfo primaryKeyColumns idx =
     (case row_get idx ''index_definition'' of
        CText definition_text \<Rightarrow>
          Some \<lparr>index_name = row_get idx ''index_name'',
                index_definition = row_get idx ''index_definition'',
                is_primary = (length primaryKeyColumns > 0 \<and>
                              includes_str definition_text (join primaryKeyColumns '', '')),
                is_unique = includes_str (toLowerCase definition_text) ''unique''\<rparr>
      | _ \<Rightarrow> None)"

fun map_indexes :: "cell list \<Rightarrow> row list \<Rightarrow> IndexInfo list option" where
  "map_indexes primaryKeyColumns [] = Some []"
| "map_indexes primaryKeyColumns (idx # rest) =
     (case indexInfo primaryKeyColumns idx of
        None \<Rightarrow> None
      | Some info \<Rightarrow> map_option (\<lambda>infos. info # infos) (map_indexes primaryKeyColumns rest))"

text \<open>The message \<^verbatim>\<open>`Table "${schema}"."${tableName}" not found`\<close>.\<close>

definition not_found_message :: "string \<Rightarrow> string \<Rightarrow> string" where
  "not_found_message schema tableName =
     ''Table '' @ [CHR 0x22] @ schema @ [CHR 0x22] @ ''.'' @ [CHR 0x22] @ tableName @ [CHR 0x22]
       @ '' not found''"

text \<open>
  The three statements are issued in order on the same client; an exception of the client
  is not caught here. The parameter \<^verbatim>\<open>schema\<close> defaults to \<^verbatim>\<open>'public'\<close> when it is
  not passed. Reading \<^verbatim>\<open>length\<close> or calling \<^verbatim>\<open>map\<close> on a \<^verbatim>\<open>rows\<close> that is
  undefined raises a TypeError.
\<close>

definition describeTable ::
  "'s env \<Rightarrow> 's \<Rightarrow> string \<Rightarrow> string option \<Rightarrow> (failure + TableDescription) \<times> event list \<times> 's" where
  "describeTable env s tableName schema =
     (let schema = (case schema of Some given \<Rightarrow> given | None \<Rightarrow> ''public'');
          values = JArray [JPrim (CText schema), JPrim (CText tableName)];
          (columnOutcome, s1) = client_query env s columnQuery values
      in case columnOutcome of
           Inl error \<Rightarrow> (Inl (Raw error), [Query columnQuery values], s1)
         | Inr columnResult \<Rightarrow>
             (case response_rows columnResult of
                None \<Rightarrow> (Inl TypeError, [Query columnQuery values], s1)
              | Some columnRows \<Rightarrow>
                  if length columnRows = 0 then
                    (Inl (Managed \<lparr>code = TABLE_NOT_FOUND,
                                   message = not_found_message schema tableName,
                                   details = None\<rparr>),
                     [Query columnQuery values], s1)
                  else
                    (let (indexOutcome, s2) = client_query env s1 indexQuery values
                     in case indexOutcome of
                          Inl error \<Rightarrow>
                            (Inl (Raw error), [Query columnQuery values, Query indexQuery values], s2)
                        | Inr indexResult \<Rightarrow>
                            (let (pkOutcome, s3) = client_query env s2 pkQuery values;
                                 trace = [Query columnQuery values, Query indexQuery values,
                                          Query pkQuery values]
                             in case pkOutcome of
                                  Inl error \<Rightarrow> (Inl (Raw error), trace, s3)
                                | Inr pkResult \<Rightarrow>
                                    (case response_rows pkResult of
                                       None \<Rightarrow> (Inl TypeError, trace, s3)
                                     | Some pkRows \<Rightarrow>
                                         (let primaryKeyColumns =
                                                js_Set (map (\<lambda>row. row_get row ''column_name'') pkRows);
                                              columns =
                                                map (\<lambda>col.
                                                       \<lparr>column_name = row_get col ''column_name'',
                                                        data_type = row_get col ''data_type'',
                                                        is_nullable = row_get col ''is_nullable'',
                                                        column_default = row_get col ''column_default'',
                                                        character_maximum_length =
                                                          row_get col ''character_maximum_length'',
                                                        numeric_precision =
                                                          row_get col ''numeric_precision'',
                                                        numeric_scale = row_get col ''numeric_scale'',
                                                        is_primary_key =
                                                          (row_get col ''column_name''
                                                             \<in> set primaryKeyColumns)\<rparr>)
                                                    columnRows
                                          in case response_rows indexResult of
                                               None \<Rightarrow> (Inl TypeError, trace, s3)
                                             | Some indexRows \<Rightarrow>
                                                 (case map_indexes primaryKeyColumns indexRows of
                                                    None \<Rightarrow> (Inl TypeError, trace, s3)
                                                  | Some indexes \<Rightarrow>
                                                      (Inr \<lparr>td_schema = schema,
                                                            td_table = tableName,
                                                            td_columns = columns,
                                                            td_indexes = indexes\<rparr>,
                                                       trace, s3))))))))"

section \<open>handleExecuteQuery (features/database/tools/execute-query.ts)\<close>

text \<open>\<^verbatim>\<open>args.k\<close> on the arguments object of a tool call; a missing member is undefined.\<close>

definition arg :: "(string \<times> jsvalue) list \<Rightarrow> string \<Rightarrow> jsvalue" where
  "arg args k = (case map_of args k of Some v \<Rightarrow> v | None \<Rightarrow> JPrim CUndefined)"

text \<open>The loop over \<^verbatim>\<open>args.params\<close>: true when some parameter makes it throw.\<close>

fun params_rejected :: "jsvalue list \<Rightarrow> bool" where
  "params_rejected [] = False"
| "params_rejected (param # rest) =
     (let type = typeof param
      in if param \<noteq> JPrim CNull \<and> type \<noteq> ''string'' \<and> type \<noteq> ''number'' \<and> type \<noteq> ''boolean''
         then True
         else params_rejected rest)"

fun elements :: "jsvalue \<Rightarrow> jsvalue list" where
  "elements (JArray xs) = xs"
| "elements v = []"

fun text_of :: "jsvalue \<Rightarrow> string" where
  "text_of (JPrim (CText t)) = t"
| "text_of v = []"

text \<open>
  The handler, with \<open>isConfigured\<close> the answer of \<^verbatim>\<open>configHandler.isConfigured()\<close>. The
  checks run before the client is created; \<^verbatim>\<open>client.end()\<close> runs in the
  \<^verbatim>\<open>finally\<close> block. On success the source wraps the JSON rendering of the result
  into a text reply; the model returns the result itself. \<open>elements\<close> and \<open>text_of\<close>
  are applied to an array and to a string only.
\<close>

definition handleExecuteQuery ::
  "'s env \<Rightarrow> 's \<Rightarrow> bool \<Rightarrow> (string \<times> jsvalue) list \<Rightarrow> (failure + QueryResult) \<times> event list \<times> 's" where
  "handleExecuteQuery env s isConfigured args =
     (if \<not> truthy (arg args ''query'') \<or> typeof (arg args ''query'') \<noteq> ''string'' then
        (Inl (Managed \<lparr>code = INVALID_PARAMS,
                       message = ''query is required and must be a string'',
                       details = None\<rparr>), [], s)
      else if truthy (arg args ''params'') \<and> \<not> isArray (arg args ''params'') then
        (Inl (Managed \<lparr>code = INVALID_PARAMS,
                       message = ''params must be an array'',
                       details = None\<rparr>), [], s)
      else if truthy (arg args ''params'') \<and> params_rejected (elements (arg args ''params'')) then
        (Inl (Managed \<lparr>code = INVALID_PARAMS,
                       message = ''Query parameters must be string, number, boolean, or null'',
                       details = None\<rparr>), [], s)
      else if \<not> isConfigured then
        (Inl (Managed \<lparr>code = NO_CONNECTION,
                       message = ''Database connection not configured. Use configure_connection tool first'',
                       details = None\<rparr>), [], s)
      else
        (let (connectError, s1) = client_connect env s
         in case connectError of
              Some error \<Rightarrow> (Inl (Raw error), [Connect, End], client_end env s1)
            | None \<Rightarrow>
                (let (outcome, trace, s2) =
                       executeQuery env s1 (text_of (arg args ''query'')) (arg args ''params'')
                 in (outcome, Connect # trace @ [End], client_end env s2))))"

section \<open>Reference notions the properties are stated with\<close>

text \<open>
  A world whose state is the reading of the wall clock: the client answers a statement by a
  function of its text and values, connecting succeeds, and every statement moves the clock
  by \<open>delta\<close> milliseconds (a negative \<open>delta\<close> is a clock that is set back while
  the statement runs).
\<close>

definition scripted_env :: "(string \<Rightarrow> jsvalue \<Rightarrow> thrown + pg_response) \<Rightarrow> int \<Rightarrow> int env" where
  "scripted_env answer delta =
     \<lparr>Date_now = (\<lambda>s. s),
      client_connect = (\<lambda>s. (None, s)),
      client_query = (\<lambda>s text values. (answer text values, s + delta)),
      client_end = (\<lambda>s. s)\<rparr>"

text \<open>
  The four kinds of value the specification permits as a query parameter: string, number,
  boolean and null.
\<close>

fun permitted_param :: "jsvalue \<Rightarrow> bool" where
  "permitted_param (JPrim (CText t)) = True"
| "permitted_param (JPrim (CInt n)) = True"
| "permitted_param (JPrim (CBool b)) = True"
| "permitted_param (JPrim CNull) = True"
| "permitted_param v = False"

section \<open>Facts about the string primitives\<close>

lemma starts_with_iff: "starts_with s p \<longleftrightarrow> (\<exists>b. s = p @ b)"
  by (induction s p rule: starts_with.induct) auto

text \<open>\<open>includes_str\<close> is the substring relation.\<close>

lemma includes_str_iff: "includes_str s p \<longleftrightarrow> (\<exists>a b. s = a @ p @ b)"
proof (induction s)
  case Nil
  then show ?case by simp
next
  case (Cons c cs)
  show ?case
  proof
    assume "includes_str (c # cs) p"
    then consider "starts_with (c # cs) p" | "includes_str cs p" by auto
    then show "\<exists>a b. c # cs = a @ p @ b"
    proof cases
      case 1
      then obtain b where "c # cs = p @ b" using starts_with_iff by blast
      then have "c # cs = [] @ p @ b" by simp
      then show ?thesis by blast
    next
      case 2
      then obtain a b where "cs = a @ p @ b" using Cons.IH by blast
      then have "c # cs = (c # a) @ p @ b" by simp
      then show ?thesis by blast
    qed
  next
    assume "\<exists>a b. c # cs = a @ p @ b"
    then obtain a b where ab: "c # cs = a @ p @ b" by blast
    show "includes_str (c # cs) p"
    proof (cases a)
      case Nil
      then have "starts_with (c # cs) p" using ab starts_with_iff by auto
      then show ?thesis by simp
    next
      case (Cons x xs)
      then have "cs = xs @ p @ b" using ab by simp
      then have "includes_str cs p" using Cons.IH by blast
      then show ?thesis by simp
    qed
  qed
qed

lemma includes_str_empty: "includes_str s []"
  by (cases s) simp_all

lemma includes_str_middle: "includes_str (a @ p @ b) p"
  using includes_str_iff by blast

section \<open>The type catalog resolves every identifier\<close>

lemma PG_DATA_TYPES_distinct: "distinct (map fst PG_DATA_TYPES)"
  by (simp add: PG_DATA_TYPES_def)

lemma PG_DATA_TYPES_nonempty: "(k, n) \<in> set PG_DATA_TYPES \<Longrightarrow> n \<noteq> []"
  by (auto simp add: PG_DATA_TYPES_def)

text \<open>
  C4. Resolving a type identifier is a total function of the integer: an identifier with an
  entry in the table resolves to that entry's name, and an identifier without an entry
  resolves to \<^verbatim>\<open>oid:\<close> followed by the identifier in decimal.
\<close>

theorem resolveTypeName_total:
  "((typeId, n) \<in> set PG_DATA_TYPES \<longrightarrow> resolveTypeName typeId = n) \<and>
   (typeId \<notin> fst ` set PG_DATA_TYPES \<longrightarrow>
      resolveTypeName typeId = ''oid:'' @ number_to_string typeId)"
proof (intro conjI impI)
  assume a: "(typeId, n) \<in> set PG_DATA_TYPES"
  then have "map_of PG_DATA_TYPES typeId = Some n"
    using PG_DATA_TYPES_distinct by simp
  moreover have "n \<noteq> []" using a by (rule PG_DATA_TYPES_nonempty)
  ultimately show "resolveTypeName typeId = n" by (simp add: resolveTypeName_def)
next
  assume "typeId \<notin> fst ` set PG_DATA_TYPES"
  then have "map_of PG_DATA_TYPES typeId = None" by (simp add: map_of_eq_None_iff)
  then show "resolveTypeName typeId = ''oid:'' @ number_to_string typeId"
    by (simp add: resolveTypeName_def)
qed

theorem resolveTypeName_total_witness:
  "(23, ''int4'') \<in> set PG_DATA_TYPES \<and> resolveTypeName 23 = ''int4'' \<and>
   (99999::int) \<notin> fst ` set PG_DATA_TYPES \<and> resolveTypeName 99999 = ''oid:99999''"
  using resolveTypeName_total [of 23 "''int4''"] resolveTypeName_total [of 99999 "''int4''"]
  by (simp add: PG_DATA_TYPES_def number_to_string_def nat_to_decimal.simps digit_char_def)

section \<open>executeQuery: outcomes\<close>

lemma executeQuery_failed:
  assumes "client_query env s query (if truthy params then params else JArray []) = (Inl error, s')"
  shows "fst (executeQuery env s query params) =
           Inl (Managed (classify query (errorMessage error) (Date_now env s' - Date_now env s)))"
  using assms by (simp add: executeQuery_def Let_def)

text \<open>The result assembled from a single result object.\<close>

lemma executeQuery_succeeded:
  assumes "client_query env s query (if truthy params then params else JArray [])
             = (Inr (Result result), s')"
  shows "fst (executeQuery env s query params) =
           Inr \<lparr>rows = Some (pg_rows result),
                rowCount = (case pg_rowCount result of Some n \<Rightarrow> n | None \<Rightarrow> 0),
                command = (case pg_command result of
                             Some c \<Rightarrow> if c \<noteq> [] then c else ''UNKNOWN'' | None \<Rightarrow> ''UNKNOWN''),
                qr_fields = (case pg_fields result of
                               Some fs \<Rightarrow>
                                 map (\<lambda>field. \<lparr>name = field_name field,
                                               dataTypeID = field_dataTypeID field,
                                               dataTypeName = resolveTypeName (field_dataTypeID field)\<rparr>) fs
                             | None \<Rightarrow> []),
                executionTime = Date_now env s' - Date_now env s\<rparr>"
  using assms by (simp add: executeQuery_def Let_def split: option.splits)

text \<open>The result assembled from an array of results, whatever the results are.\<close>

lemma executeQuery_array:
  assumes "client_query env s query (if truthy params then params else JArray [])
             = (Inr (Results results), s')"
  shows "fst (executeQuery env s query params) =
           Inr \<lparr>rows = None, rowCount = 0, command = ''UNKNOWN'', qr_fields = [],
                executionTime = Date_now env s' - Date_now env s\<rparr>"
  using assms by (simp add: executeQuery_def Let_def)

text \<open>
  C1. When the client throws during executeQuery, the kind of the classified error is
  decided by substring tests on the message, in this order: \<^verbatim>\<open>permission denied\<close> gives
  PERMISSION_DENIED; otherwise \<^verbatim>\<open>does not exist\<close> gives TABLE_NOT_FOUND with the engine's
  message; otherwise \<^verbatim>\<open>syntax error\<close> gives QUERY_ERROR with a message that starts
  with \<^verbatim>\<open>SQL syntax error: \<close>; otherwise the kind is QUERY_ERROR and the message is
  \<^verbatim>\<open>Query execution failed: \<close> followed by the engine's message.
\<close>

theorem executeQuery_classification:
  assumes "client_query env s query (if truthy params then params else JArray []) = (Inl error, s')"
  shows "\<exists>e. fst (executeQuery env s query params) = Inl (Managed e) \<and>
           (if includes_str (errorMessage error) ''permission denied'' then
              code e = PERMISSION_DENIED \<and> message e = ''Permission denied for this operation''
            else if includes_str (errorMessage error) ''does not exist'' then
              code e = TABLE_NOT_FOUND \<and> message e = errorMessage error
            else if includes_str (errorMessage error) ''syntax error'' then
              code e = QUERY_ERROR \<and> message e = ''SQL syntax error: '' @ errorMessage error
            else
              code e = QUERY_ERROR \<and> message e = ''Query execution failed: '' @ errorMessage error)"
  using executeQuery_failed [OF assms] by (simp add: classify_def)

theorem executeQuery_classification_witness:
  "client_query (scripted_env (\<lambda>text values. Inl (ErrorObject ''syntax error at or near SELCT'')) 3)
      1000 ''SELCT 1'' (if truthy (JPrim CUndefined) then JPrim CUndefined else JArray [])
     = (Inl (ErrorObject ''syntax error at or near SELCT''), 1003) \<and>
   (\<exists>e. fst (executeQuery
                (scripted_env (\<lambda>text values. Inl (ErrorObject ''syntax error at or near SELCT'')) 3)
                1000 ''SELCT 1'' (JPrim CUndefined)) = Inl (Managed e) \<and>
        code e = QUERY_ERROR \<and> message e = ''SQL syntax error: syntax error at or near SELCT'')"
proof -
  have q: "client_query
             (scripted_env (\<lambda>text values. Inl (ErrorObject ''syntax error at or near SELCT'')) 3)
             1000 ''SELCT 1'' (if truthy (JPrim CUndefined) then JPrim CUndefined else JArray [])
           = (Inl (ErrorObject ''syntax error at or near SELCT''), 1003)"
    by (simp add: scripted_env_def)
  show ?thesis using q executeQuery_classification [OF q] by simp
qed

text \<open>
  C5. For a text of two statements sent without values the client resolves the array of
  the two results. executeQuery then succeeds with undefined rows, the row count 0, the
  command \<^verbatim>\<open>UNKNOWN\<close> and no fields, although the engine reported the command
  \<^verbatim>\<open>SELECT\<close> and the row count 1 for each statement.
\<close>

theorem executeQuery_multi_statement:
  "fst (executeQuery
          (scripted_env (\<lambda>text values.
              Inr (Results
                [\<lparr>pg_rows = [[(''a'', CInt 1)]], pg_rowCount = Some 1, pg_command = Some ''SELECT'',
                  pg_fields = Some [\<lparr>field_name = ''a'', field_dataTypeID = 23\<rparr>]\<rparr>,
                 \<lparr>pg_rows = [[(''b'', CInt 2)]], pg_rowCount = Some 1, pg_command = Some ''SELECT'',
                  pg_fields = Some [\<lparr>field_name = ''b'', field_dataTypeID = 23\<rparr>]\<rparr>])) 5)
          1000 ''SELECT 1 AS a; SELECT 2 AS b'' (JPrim CUndefined))
   = Inr \<lparr>rows = None, rowCount = 0, command = ''UNKNOWN'', qr_fields = [], executionTime = 5\<rparr>"
  by (simp add: executeQuery_def scripted_env_def Let_def)

text \<open>
  With a wall clock that is set back by 600 ms while the statement runs, the execution
  succeeds with a negative \<^verbatim>\<open>executionTime\<close>.
\<close>

lemma executeQuery_clock_set_back:
  "fst (executeQuery
          (scripted_env (\<lambda>text values.
              Inr (Result \<lparr>pg_rows = [[(''n'', CInt 1)]], pg_rowCount = Some 1,
                           pg_command = Some ''SELECT'',
                           pg_fields = Some [\<lparr>field_name = ''n'', field_dataTypeID = 23\<rparr>]\<rparr>)) (- 600))
          1000 ''SELECT 1 AS n'' (JPrim CUndefined))
   = Inr \<lparr>rows = Some [[(''n'', CInt 1)]], rowCount = 1, command = ''SELECT'',
          qr_fields = [\<lparr>name = ''n'', dataTypeID = 23, dataTypeName = ''int4''\<rparr>],
          executionTime = - 600\<rparr>"
  by (simp add: executeQuery_def scripted_env_def Let_def resolveTypeName_def PG_DATA_TYPES_def)

text \<open>
  C6. Executing a statement with no parameter list is the same as executing it with the
  empty list, result, log calls and final state included: in both cases the client is called
  once, with the statement text as it was given and the empty list of values.
\<close>

theorem executeQuery_absent_params:
  "executeQuery env s query (JPrim CUndefined) = executeQuery env s query (JArray []) \<and>
   fst (snd (executeQuery env s query (JPrim CUndefined))) ! 1 = Query query (JArray []) \<and>
   [ev \<leftarrow> fst (snd (executeQuery env s query (JPrim CUndefined))). \<forall>m d. ev \<noteq> Log m d]
     = [Query query (JArray [])]"
  by (auto simp add: executeQuery_def Let_def split: prod.splits sum.splits)

theorem executeQuery_absent_params_witness:
  "executeQuery (scripted_env (\<lambda>text values. Inl (ErrorObject ''connection lost'')) 5) 0 ''SELECT 1''
     (JPrim CUndefined)
   = executeQuery (scripted_env (\<lambda>text values. Inl (ErrorObject ''connection lost'')) 5) 0 ''SELECT 1''
     (JArray []) \<and>
   fst (snd (executeQuery (scripted_env (\<lambda>text values. Inl (ErrorObject ''connection lost'')) 5) 0
     ''SELECT 1'' (JPrim CUndefined)))
   = [Log ''QueryExecutor: Executing query''
        [(''command'', JPrim (CText ''SELECT 1'')), (''paramCount'', JPrim (CInt 0))],
      Query ''SELECT 1'' (JArray [])]"
  using executeQuery_absent_params
    [of "scripted_env (\<lambda>text values. Inl (ErrorObject ''connection lost'')) 5" 0 "''SELECT 1''"]
  by (simp add: executeQuery_def scripted_env_def Let_def)

section \<open>handleExecuteQuery: the checks on the arguments\<close>

lemma params_rejected_iff: "params_rejected xs \<longleftrightarrow> (\<exists>x \<in> set xs. \<not> permitted_param x)"
proof (induction xs)
  case Nil
  then show ?case by simp
next
  case (Cons x xs)
  have "(x \<noteq> JPrim CNull \<and> typeof x \<noteq> ''string'' \<and> typeof x \<noteq> ''number'' \<and> typeof x \<noteq> ''boolean'')
          \<longleftrightarrow> \<not> permitted_param x"
    by (cases x rule: permitted_param.cases) simp_all
  then show ?case using Cons by (simp add: Let_def)
qed

lemma paramCount_falsy: "\<not> truthy p \<Longrightarrow> paramCount p = 0"
  by (cases p rule: paramCount.cases) auto

lemma executeQuery_falsy_params:
  assumes "\<not> truthy p"
  shows "executeQuery env s query p = executeQuery env s query (JPrim CUndefined)"
  using assms paramCount_falsy [OF assms] by (simp add: executeQuery_def)

lemma handleExecuteQuery_connect_failed:
  assumes "truthy (arg args ''query'')" "typeof (arg args ''query'') = ''string''"
    and "\<not> truthy (arg args ''params'') \<or>
         (\<exists>xs. arg args ''params'' = JArray xs \<and> (\<forall>x \<in> set xs. permitted_param x))"
    and "client_connect env s = (Some error, s1)"
  shows "handleExecuteQuery env s True args = (Inl (Raw error), [Connect, End], client_end env s1)"
proof -
  have shape: "\<not> (truthy (arg args ''params'') \<and> \<not> isArray (arg args ''params''))"
    using assms(3) by auto
  have elems: "\<not> (truthy (arg args ''params'') \<and> params_rejected (elements (arg args ''params'')))"
    using assms(3) params_rejected_iff by auto
  show ?thesis
    using assms(1,2,4) shape elems by (simp add: handleExecuteQuery_def)
qed

section \<open>The kinds of error that can be raised\<close>

lemma classify_code: "code (classify query msg elapsed) \<in> {PERMISSION_DENIED, TABLE_NOT_FOUND, QUERY_ERROR}"
  by (simp add: classify_def)

lemma executeQuery_failure_shape:
  assumes "fst (executeQuery env s query params) = Inl f"
  shows "\<exists>msg elapsed. f = Managed (classify query msg elapsed)"
  using assms by (auto simp add: executeQuery_def Let_def split: prod.splits sum.splits)

lemma executeQuery_managed_code:
  assumes "fst (executeQuery env s query params) = Inl (Managed e)"
  shows "code e \<in> {PERMISSION_DENIED, TABLE_NOT_FOUND, QUERY_ERROR}"
proof -
  obtain msg elapsed where "Managed e = Managed (classify query msg elapsed)"
    using executeQuery_failure_shape [OF assms] by blast
  then have "e = classify query msg elapsed" by simp
  then show ?thesis using classify_code by simp
qed

lemma handleExecuteQuery_managed_code:
  assumes h: "fst (handleExecuteQuery env s isConfigured args) = Inl (Managed e)"
  shows "code e \<in> {INVALID_PARAMS, NO_CONNECTION, PERMISSION_DENIED, TABLE_NOT_FOUND, QUERY_ERROR}"
proof (cases "\<exists>s1. fst (executeQuery env s1 (text_of (arg args ''query'')) (arg args ''params''))
                      = Inl (Managed e)")
  case True
  then obtain s1 where
    "fst (executeQuery env s1 (text_of (arg args ''query'')) (arg args ''params'')) = Inl (Managed e)"
    by blast
  then have "code e \<in> {PERMISSION_DENIED, TABLE_NOT_FOUND, QUERY_ERROR}"
    by (rule executeQuery_managed_code)
  then show ?thesis by auto
next
  case False
  then have "\<And>s1 trace s2.
      executeQuery env s1 (text_of (arg args ''query'')) (arg args ''params'')
        \<noteq> (Inl (Managed e), trace, s2)"
    by (metis fst_conv)
  then show ?thesis using h
    by (auto simp add: handleExecuteQuery_def Let_def split: if_splits prod.splits option.splits)
qed

text \<open>
  C8 (amended). Neither executeQuery nor handleExecuteQuery ever raises the TIMEOUT kind:
  their classified errors have one of the kinds listed below. A statement that exceeds its
  timeout reaches executeQuery as an exception of the client and is classified by its
  message like any other; with a message that has none of the three phrasings the kind is
  QUERY_ERROR. An exception of \<^verbatim>\<open>client.connect()\<close>, in any invocation that passes the
  checks on its arguments and on the configuration, leaves handleExecuteQuery as it is,
  unclassified, after \<^verbatim>\<open>client.end()\<close>.
\<close>

theorem timeout_kind_never_raised:
  "(fst (executeQuery env s query params) = Inl (Managed e) \<longrightarrow>
      code e \<in> {PERMISSION_DENIED, TABLE_NOT_FOUND, QUERY_ERROR}) \<and>
   (fst (handleExecuteQuery env s isConfigured args) = Inl (Managed e') \<longrightarrow>
      code e' \<in> {INVALID_PARAMS, NO_CONNECTION, PERMISSION_DENIED, TABLE_NOT_FOUND, QUERY_ERROR}) \<and>
   (client_query env s query (if truthy params then params else JArray []) = (Inl error, s') \<and>
    \<not> includes_str (errorMessage error) ''permission denied'' \<and>
    \<not> includes_str (errorMessage error) ''does not exist'' \<and>
    \<not> includes_str (errorMessage error) ''syntax error'' \<longrightarrow>
      (\<exists>e. fst (executeQuery env s query params) = Inl (Managed e) \<and> code e = QUERY_ERROR \<and>
           message e = ''Query execution failed: '' @ errorMessage error)) \<and>
   (truthy (arg args ''query'') \<and> typeof (arg args ''query'') = ''string'' \<and>
    (\<not> truthy (arg args ''params'') \<or>
     (\<exists>xs. arg args ''params'' = JArray xs \<and> (\<forall>x \<in> set xs. permitted_param x))) \<and>
    client_connect env s = (Some connectError, s1) \<longrightarrow>
      handleExecuteQuery env s True args
        = (Inl (Raw connectError), [Connect, End], client_end env s1))"
proof (intro conjI impI)
  assume "fst (executeQuery env s query params) = Inl (Managed e)"
  then show "code e \<in> {PERMISSION_DENIED, TABLE_NOT_FOUND, QUERY_ERROR}"
    by (rule executeQuery_managed_code)
next
  assume "fst (handleExecuteQuery env s isConfigured args) = Inl (Managed e')"
  then show "code e' \<in> {INVALID_PARAMS, NO_CONNECTION, PERMISSION_DENIED, TABLE_NOT_FOUND, QUERY_ERROR}"
    by (rule handleExecuteQuery_managed_code)
next
  assume a: "client_query env s query (if truthy params then params else JArray []) = (Inl error, s') \<and>
    \<not> includes_str (errorMessage error) ''permission denied'' \<and>
    \<not> includes_str (errorMessage error) ''does not exist'' \<and>
    \<not> includes_str (errorMessage error) ''syntax error''"
  then show "\<exists>e. fst (executeQuery env s query params) = Inl (Managed e) \<and> code e = QUERY_ERROR \<and>
           message e = ''Query execution failed: '' @ errorMessage error"
    using executeQuery_failed [of env s query params error s'] by (simp add: classify_def)
next
  assume a: "truthy (arg args ''query'') \<and> typeof (arg args ''query'') = ''string'' \<and>
    (\<not> truthy (arg args ''params'') \<or>
     (\<exists>xs. arg args ''params'' = JArray xs \<and> (\<forall>x \<in> set xs. permitted_param x))) \<and>
    client_connect env s = (Some connectError, s1)"
  show "handleExecuteQuery env s True args
        = (Inl (Raw connectError), [Connect, End], client_end env s1)"
  proof (rule handleExecuteQuery_connect_failed)
    show "truthy (arg args ''query'')" using a by (rule conjunct1)
    show "typeof (arg args ''query'') = ''string''" using a by simp
    show "\<not> truthy (arg args ''params'') \<or>
          (\<exists>xs. arg args ''params'' = JArray xs \<and> (\<forall>x \<in> set xs. permitted_param x))"
      using a by (elim conjE)
    show "client_connect env s = (Some connectError, s1)" using a by simp
  qed
qed

theorem timeout_kind_never_raised_witness:
  "fst (handleExecuteQuery
          (scripted_env (\<lambda>text values. Inl (ErrorObject ''Query read timeout'')) 60000) 0 True
          [(''query'', JPrim (CText ''SELECT pg_sleep(120)''))])
     = Inl (Managed \<lparr>code = QUERY_ERROR,
                     message = ''Query execution failed: Query read timeout'',
                     details = Some [(''query'', JPrim (CText ''SELECT pg_sleep(120)'')),
                                     (''executionTime'', JPrim (CInt 60000))]\<rparr>) \<and>
   QUERY_ERROR \<in> {INVALID_PARAMS, NO_CONNECTION, PERMISSION_DENIED, TABLE_NOT_FOUND, QUERY_ERROR} \<and>
   handleExecuteQuery
     ((scripted_env (\<lambda>text values. Inl (ErrorObject ''unused'')) 0)
        \<lparr>client_connect := \<lambda>s. (Some (ErrorObject ''timeout expired''), s + 30000)\<rparr>) 0 True
     [(''query'', JPrim (CText ''SELECT $1, $2'')),
      (''params'', JArray [JPrim (CInt 7), JPrim (CText ''x'')])]
     = (Inl (Raw (ErrorObject ''timeout expired'')), [Connect, End], 30000)"
proof -
  let ?env = "scripted_env (\<lambda>text values. Inl (ErrorObject ''Query read timeout'')) 60000"
  let ?args = "[(''query'', JPrim (CText ''SELECT pg_sleep(120)''))]"
  let ?e = "\<lparr>code = QUERY_ERROR,
                     message = ''Query execution failed: Query read timeout'',
                     details = Some [(''query'', JPrim (CText ''SELECT pg_sleep(120)'')),
                                     (''executionTime'', JPrim (CInt 60000))]\<rparr>"
  let ?env2 = "(scripted_env (\<lambda>text values. Inl (ErrorObject ''unused'')) 0)
             \<lparr>client_connect := \<lambda>s. (Some (ErrorObject ''timeout expired''), s + 30000)\<rparr>"
  let ?args2 = "[(''query'', JPrim (CText ''SELECT $1, $2'')),
                 (''params'', JArray [JPrim (CInt 7), JPrim (CText ''x'')])]"
  have h: "fst (handleExecuteQuery ?env 0 True ?args) = Inl (Managed ?e)"
    by (simp add: handleExecuteQuery_def executeQuery_def scripted_env_def arg_def Let_def classify_def)
  have c: "truthy (arg ?args2 ''query'') \<and> typeof (arg ?args2 ''query'') = ''string'' \<and>
           (\<not> truthy (arg ?args2 ''params'') \<or>
            (\<exists>xs. arg ?args2 ''params'' = JArray xs \<and> (\<forall>x \<in> set xs. permitted_param x))) \<and>
           client_connect ?env2 0 = (Some (ErrorObject ''timeout expired''), 30000)"
    by (simp add: arg_def scripted_env_def)
  have e: "client_end ?env2 30000 = 30000" by (simp add: scripted_env_def)
  have 1: "code ?e \<in> {INVALID_PARAMS, NO_CONNECTION, PERMISSION_DENIED, TABLE_NOT_FOUND, QUERY_ERROR}"
    using timeout_kind_never_raised [where env = ?env and s = 0 and isConfigured = True
        and args = ?args and e' = ?e] h by simp
  have 2: "handleExecuteQuery ?env2 0 True ?args2
             = (Inl (Raw (ErrorObject ''timeout expired'')), [Connect, End], client_end ?env2 30000)"
    using timeout_kind_never_raised [where env = ?env2 and s = 0 and args = ?args2
        and connectError = "ErrorObject ''timeout expired''" and ?s1.0 = 30000] c
    by simp
  show ?thesis using h 1 2 e by simp
qed

text \<open>
  The \<^verbatim>\<open>pg\<close> client reports a statement that exceeds \<^verbatim>\<open>query_timeout\<close> with the
  message \<^verbatim>\<open>Query read timeout\<close>; the classified error is a QUERY_ERROR.
\<close>

theorem statement_timeout_counterexample:
  "fst (executeQuery (scripted_env (\<lambda>text values. Inl (ErrorObject ''Query read timeout'')) 60000) 0
          ''SELECT pg_sleep(120)'' (JPrim CUndefined))
   = Inl (Managed \<lparr>code = QUERY_ERROR,
                   message = ''Query execution failed: Query read timeout'',
                   details = Some [(''query'', JPrim (CText ''SELECT pg_sleep(120)'')),
                                   (''executionTime'', JPrim (CInt 60000))]\<rparr>)"
  by (simp add: executeQuery_def scripted_env_def Let_def classify_def)

section \<open>describeTable: the missing table\<close>

lemma describeTable_columns_failed:
  assumes "client_query env s columnQuery
             (JArray [JPrim (CText (case schema of Some given \<Rightarrow> given | None \<Rightarrow> ''public'')),
                      JPrim (CText tableName)]) = (Inl error, s1)"
  shows "fst (describeTable env s tableName schema) = Inl (Raw error)"
  using assms by (simp add: describeTable_def Let_def)

lemma describeTable_no_columns:
  assumes "client_query env s columnQuery
             (JArray [JPrim (CText (case schema of Some given \<Rightarrow> given | None \<Rightarrow> ''public'')),
                      JPrim (CText tableName)]) = (Inr (Result columnResult), s1)"
    and "pg_rows columnResult = []"
  shows "fst (describeTable env s tableName schema) =
           Inl (Managed \<lparr>code = TABLE_NOT_FOUND,
                          message = not_found_message
                                      (case schema of Some given \<Rightarrow> given | None \<Rightarrow> ''public'') tableName,
                          details = None\<rparr>)"
  using assms by (simp add: describeTable_def Let_def)

lemma describeTable_some_columns:
  assumes "client_query env s columnQuery
             (JArray [JPrim (CText (case schema of Some given \<Rightarrow> given | None \<Rightarrow> ''public'')),
                      JPrim (CText tableName)]) = (Inr (Result columnResult), s1)"
    and "pg_rows columnResult \<noteq> []"
  shows "fst (describeTable env s tableName schema) \<noteq> Inl (Managed e)"
  using assms
  by (simp add: describeTable_def Let_def split: prod.splits sum.splits option.splits)

lemma describeTable_columns_array:
  assumes "client_query env s columnQuery
             (JArray [JPrim (CText (case schema of Some given \<Rightarrow> given | None \<Rightarrow> ''public'')),
                      JPrim (CText tableName)]) = (Inr (Results results), s1)"
  shows "fst (describeTable env s tableName schema) = Inl TypeError"
  using assms by (simp add: describeTable_def Let_def)

lemma not_found_message_names:
  "includes_str (not_found_message schema tableName) schema \<and>
   includes_str (not_found_message schema tableName) tableName"
proof
  have "not_found_message schema tableName
          = (''Table '' @ [CHR 0x22]) @ schema @ ([CHR 0x22] @ ''.'' @ [CHR 0x22] @ tableName @ [CHR 0x22] @ '' not found'')"
    by (simp add: not_found_message_def)
  then show "includes_str (not_found_message schema tableName) schema"
    using includes_str_middle by metis
  have "not_found_message schema tableName
          = (''Table '' @ [CHR 0x22] @ schema @ [CHR 0x22] @ ''.'' @ [CHR 0x22]) @ tableName @ ([CHR 0x22] @ '' not found'')"
    by (simp add: not_found_message_def)
  then show "includes_str (not_found_message schema tableName) tableName"
    using includes_str_middle by metis
qed

text \<open>
  C3. describeTable fails with a classified TABLE_NOT_FOUND error exactly when its first
  statement, the column query for the given schema and table, returns no row. It raises no
  other classified error, and the message of this one is
  \<^verbatim>\<open>Table "<schema>"."<table>" not found\<close>, which contains both names.
\<close>

theorem describeTable_not_found:
  "((\<exists>e. fst (describeTable env s tableName schema) = Inl (Managed e) \<and> code e = TABLE_NOT_FOUND)
      \<longleftrightarrow>
    (\<exists>columnResult s1.
        client_query env s columnQuery
          (JArray [JPrim (CText (case schema of Some given \<Rightarrow> given | None \<Rightarrow> ''public'')),
                   JPrim (CText tableName)]) = (Inr (Result columnResult), s1) \<and>
        length (pg_rows columnResult) = 0)) \<and>
   (\<forall>e. fst (describeTable env s tableName schema) = Inl (Managed e) \<longrightarrow>
        code e = TABLE_NOT_FOUND \<and>
        message e = ''Table '' @ [CHR 0x22] @ (case schema of Some given \<Rightarrow> given | None \<Rightarrow> ''public'')
                      @ [CHR 0x22] @ ''.'' @ [CHR 0x22] @ tableName @ [CHR 0x22] @ '' not found'' \<and>
        includes_str (message e) (case schema of Some given \<Rightarrow> given | None \<Rightarrow> ''public'') \<and>
        includes_str (message e) tableName)"
proof -
  let ?sch = "case schema of Some given \<Rightarrow> given | None \<Rightarrow> ''public''"
  let ?vals = "JArray [JPrim (CText ?sch), JPrim (CText tableName)]"
  obtain outcome s1 where q: "client_query env s columnQuery ?vals = (outcome, s1)"
    by (cases "client_query env s columnQuery ?vals") auto
  show ?thesis
  proof (cases outcome)
    case (Inl error)
    then have "fst (describeTable env s tableName schema) = Inl (Raw error)"
      using q describeTable_columns_failed by metis
    then show ?thesis using q Inl by simp
  next
    case (Inr response)
    show ?thesis
    proof (cases response)
      case (Results results)
      then have "fst (describeTable env s tableName schema) = Inl TypeError"
        using q Inr describeTable_columns_array by metis
      then show ?thesis using q Inr Results by simp
    next
      case (Result columnResult)
      show ?thesis
      proof (cases "pg_rows columnResult = []")
        case True
        then have "fst (describeTable env s tableName schema) =
             Inl (Managed \<lparr>code = TABLE_NOT_FOUND, message = not_found_message ?sch tableName,
                            details = None\<rparr>)"
          using q Inr Result describeTable_no_columns by metis
        then show ?thesis using q Inr Result True not_found_message_names [of ?sch tableName]
          by (simp add: not_found_message_def)
      next
        case False
        then have "\<And>e. fst (describeTable env s tableName schema) \<noteq> Inl (Managed e)"
          using q Inr Result describeTable_some_columns by metis
        then show ?thesis using q Inr Result False by simp
      qed
    qed
  qed
qed

theorem describeTable_not_found_witness:
  "fst (describeTable
          (scripted_env (\<lambda>text values.
             Inr (Result \<lparr>pg_rows = [], pg_rowCount = Some 0, pg_command = Some ''SELECT'',
                          pg_fields = Some []\<rparr>)) 2) 0 ''ghost'' None)
     = Inl (Managed \<lparr>code = TABLE_NOT_FOUND,
                     message = ''Table '' @ [CHR 0x22] @ ''public'' @ [CHR 0x22] @ ''.'' @ [CHR 0x22]
                                 @ ''ghost'' @ [CHR 0x22] @ '' not found'',
                     details = None\<rparr>) \<and>
   includes_str (''Table '' @ [CHR 0x22] @ ''public'' @ [CHR 0x22] @ ''.'' @ [CHR 0x22]
                   @ ''ghost'' @ [CHR 0x22] @ '' not found'') ''public'' \<and>
   includes_str (''Table '' @ [CHR 0x22] @ ''public'' @ [CHR 0x22] @ ''.'' @ [CHR 0x22]
                   @ ''ghost'' @ [CHR 0x22] @ '' not found'') ''ghost''"
proof -
  let ?env = "scripted_env (\<lambda>text values.
             Inr (Result \<lparr>pg_rows = [], pg_rowCount = Some 0, pg_command = Some ''SELECT'',
                          pg_fields = Some []\<rparr>)) 2"
  have d: "fst (describeTable ?env 0 ''ghost'' None)
     = Inl (Managed \<lparr>code = TABLE_NOT_FOUND,
                     message = ''Table '' @ [CHR 0x22] @ ''public'' @ [CHR 0x22] @ ''.'' @ [CHR 0x22]
                                 @ ''ghost'' @ [CHR 0x22] @ '' not found'',
                     details = None\<rparr>)"
    by (simp add: describeTable_def scripted_env_def Let_def not_found_message_def)
  show ?thesis
    using d describeTable_not_found [of ?env 0 "''ghost''" None] by simp
qed

section \<open>The details of a classified error\<close>

text \<open>
  C2 (amended). A classified error raised by executeQuery carries its kind, a message and
  details that hold the first 100 characters of the statement under \<^verbatim>\<open>query\<close>; in the
  generic QUERY_ERROR case, and only there, they also hold the elapsed milliseconds under
  \<^verbatim>\<open>executionTime\<close>. The TABLE_NOT_FOUND error raised by describeTable carries its kind
  and message and no details.
\<close>

theorem classified_error_details:
  "(client_query env s query (if truthy params then params else JArray []) = (Inl error, s') \<longrightarrow>
      (\<exists>e. fst (executeQuery env s query params) = Inl (Managed e) \<and>
           details e =
             Some (if \<not> includes_str (errorMessage error) ''permission denied'' \<and>
                      \<not> includes_str (errorMessage error) ''does not exist'' \<and>
                      \<not> includes_str (errorMessage error) ''syntax error''
                   then [(''query'', JPrim (CText (take 100 query))),
                         (''executionTime'', JPrim (CInt (Date_now env s' - Date_now env s)))]
                   else [(''query'', JPrim (CText (take 100 query)))]) \<and>
           length (take 100 query) \<le> 100)) \<and>
   (client_query env s columnQuery
      (JArray [JPrim (CText (case schema of Some given \<Rightarrow> given | None \<Rightarrow> ''public'')),
               JPrim (CText tableName)]) = (Inr (Result columnResult), s1) \<and>
    pg_rows columnResult = [] \<longrightarrow>
      (\<exists>e. fst (describeTable env s tableName schema) = Inl (Managed e) \<and>
           code e = TABLE_NOT_FOUND \<and> details e = None))"
proof (intro conjI impI)
  assume a: "client_query env s query (if truthy params then params else JArray []) = (Inl error, s')"
  show "\<exists>e. fst (executeQuery env s query params) = Inl (Managed e) \<and>
           details e =
             Some (if \<not> includes_str (errorMessage error) ''permission denied'' \<and>
                      \<not> includes_str (errorMessage error) ''does not exist'' \<and>
                      \<not> includes_str (errorMessage error) ''syntax error''
                   then [(''query'', JPrim (CText (take 100 query))),
                         (''executionTime'', JPrim (CInt (Date_now env s' - Date_now env s)))]
                   else [(''query'', JPrim (CText (take 100 query)))]) \<and>
           length (take 100 query) \<le> 100"
    using executeQuery_failed [OF a] by (simp add: classify_def)
next
  assume "client_query env s columnQuery
      (JArray [JPrim (CText (case schema of Some given \<Rightarrow> given | None \<Rightarrow> ''public'')),
               JPrim (CText tableName)]) = (Inr (Result columnResult), s1) \<and>
    pg_rows columnResult = []"
  then show "\<exists>e. fst (describeTable env s tableName schema) = Inl (Managed e) \<and>
           code e = TABLE_NOT_FOUND \<and> details e = None"
    using describeTable_no_columns [of env s schema tableName columnResult s1] by simp
qed

theorem classified_error_details_witness:
  "fst (executeQuery
          (scripted_env (\<lambda>text values. Inl (ErrorObject ''deadlock detected'')) 12) 500
          (replicate 150 CHR ''x'') (JArray []))
     = Inl (Managed \<lparr>code = QUERY_ERROR,
                     message = ''Query execution failed: deadlock detected'',
                     details = Some [(''query'', JPrim (CText (replicate 100 CHR ''x''))),
                                     (''executionTime'', JPrim (CInt 12))]\<rparr>) \<and>
   length (replicate 100 CHR ''x'') \<le> 100 \<and>
   (\<exists>e. fst (describeTable
          (scripted_env (\<lambda>text values.
             Inr (Result \<lparr>pg_rows = [], pg_rowCount = Some 0, pg_command = Some ''SELECT'',
                          pg_fields = Some []\<rparr>)) 2) 0 ''ghost'' None) = Inl (Managed e) \<and>
        code e = TABLE_NOT_FOUND \<and> details e = None)"
proof -
  let ?env = "scripted_env (\<lambda>text values. Inl (ErrorObject ''deadlock detected'')) 12"
  let ?q = "replicate 150 CHR ''x''"
  let ?res = "\<lparr>pg_rows = [], pg_rowCount = Some 0, pg_command = Some ''SELECT'', pg_fields = Some []\<rparr>"
  let ?env2 = "scripted_env (\<lambda>text values. Inr (Result ?res)) 2"
  have a: "client_query ?env 500 ?q (if truthy (JArray []) then JArray [] else JArray [])
             = (Inl (ErrorObject ''deadlock detected''), 512)"
    by (simp add: scripted_env_def)
  have b: "client_query ?env2 0 columnQuery
      (JArray [JPrim (CText (case None of Some given \<Rightarrow> given | None \<Rightarrow> ''public'')),
               JPrim (CText ''ghost'')]) = (Inr (Result ?res), 2) \<and> pg_rows ?res = []"
    by (simp add: scripted_env_def)
  have t: "take 100 ?q = replicate 100 CHR ''x''" by simp
  have n: "Date_now ?env 512 - Date_now ?env 500 = 12" by (simp add: scripted_env_def)
  have 1: "\<exists>e. fst (executeQuery ?env 500 ?q (JArray [])) = Inl (Managed e) \<and>
             details e = Some [(''query'', JPrim (CText (replicate 100 CHR ''x''))),
                               (''executionTime'', JPrim (CInt 12))] \<and>
             length (replicate 100 CHR ''x'') \<le> 100"
    using classified_error_details [where env = ?env and s = 500 and query = ?q
        and params = "JArray []" and error = "ErrorObject ''deadlock detected''" and s' = 512] a t n
    by simp
  have 2: "\<exists>e. fst (describeTable ?env2 0 ''ghost'' None) = Inl (Managed e) \<and>
        code e = TABLE_NOT_FOUND \<and> details e = None"
    using classified_error_details [where env = ?env2 and s = 0 and schema = None
        and tableName = "''ghost''" and columnResult = ?res and ?s1.0 = 2] b
    by simp
  have 3: "fst (executeQuery ?env 500 ?q (JArray []))
     = Inl (Managed \<lparr>code = QUERY_ERROR,
                     message = ''Query execution failed: deadlock detected'',
                     details = Some [(''query'', JPrim (CText (replicate 100 CHR ''x''))),
                                     (''executionTime'', JPrim (CInt 12))]\<rparr>)"
    using executeQuery_failed [OF a] t n by (simp add: classify_def)
  show ?thesis using 1 2 3 by simp
qed


text \<open>describeTable's own error has no details, hence no statement text in them.\<close>

theorem describeTable_details_counterexample:
  "fst (describeTable
          (scripted_env (\<lambda>text values.
             Inr (Result \<lparr>pg_rows = [], pg_rowCount = Some 0, pg_command = Some ''SELECT'',
                          pg_fields = Some []\<rparr>)) 2) 0 ''users'' (Some ''app''))
     = Inl (Managed \<lparr>code = TABLE_NOT_FOUND,
                     message = ''Table '' @ [CHR 0x22] @ ''app'' @ [CHR 0x22] @ ''.'' @ [CHR 0x22]
                                 @ ''users'' @ [CHR 0x22] @ '' not found'',
                     details = None\<rparr>)"
  by (simp add: describeTable_def scripted_env_def Let_def not_found_message_def)

section \<open>describeTable: a table without a primary key\<close>

lemma js_Set_empty: "js_Set [] = []"
  by (simp add: js_Set_def)

lemma indexInfo_no_key:
  assumes "indexInfo [] idx = Some info"
  shows "\<not> is_primary info"
  using assms by (auto simp add: indexInfo_def split: cell.splits)

lemma map_indexes_no_key:
  assumes "map_indexes [] rs = Some infos"
  shows "\<forall>i \<in> set infos. \<not> is_primary i"
  using assms
proof (induction rs arbitrary: infos)
  case Nil
  then show ?case by simp
next
  case (Cons idx rest)
  then obtain info others where p: "indexInfo [] idx = Some info"
    "map_indexes [] rest = Some others" "infos = info # others"
    by (auto split: option.splits)
  then show ?case using Cons.IH [of others] indexInfo_no_key [of idx info] by simp
qed

lemma map_indexes_text:
  assumes "\<forall>r \<in> set rs. \<exists>t. row_get r ''index_definition'' = CText t"
  shows "\<exists>infos. map_indexes pk rs = Some infos \<and> length infos = length rs"
  using assms
proof (induction rs)
  case Nil
  then show ?case by simp
next
  case (Cons idx rest)
  then obtain t where t: "row_get idx ''index_definition'' = CText t" by auto
  then obtain info where i: "indexInfo pk idx = Some info" by (simp add: indexInfo_def)
  obtain infos where "map_indexes pk rest = Some infos \<and> length infos = length rest"
    using Cons by auto
  then show ?case using i by simp
qed

lemma describeTable_success:
  assumes "client_query env s columnQuery
             (JArray [JPrim (CText (case schema of Some given \<Rightarrow> given | None \<Rightarrow> ''public'')),
                      JPrim (CText tableName)]) = (Inr (Result columnResult), s1)"
    and "pg_rows columnResult \<noteq> []"
    and "client_query env s1 indexQuery
             (JArray [JPrim (CText (case schema of Some given \<Rightarrow> given | None \<Rightarrow> ''public'')),
                      JPrim (CText tableName)]) = (Inr (Result indexResult), s2)"
    and "client_query env s2 pkQuery
             (JArray [JPrim (CText (case schema of Some given \<Rightarrow> given | None \<Rightarrow> ''public'')),
                      JPrim (CText tableName)]) = (Inr (Result pkResult), s3)"
  shows "fst (describeTable env s tableName schema) =
           (case map_indexes (js_Set (map (\<lambda>row. row_get row ''column_name'') (pg_rows pkResult)))
                   (pg_rows indexResult) of
              None \<Rightarrow> Inl TypeError
            | Some infos \<Rightarrow>
                Inr \<lparr>td_schema = (case schema of Some given \<Rightarrow> given | None \<Rightarrow> ''public''),
                     td_table = tableName,
                     td_columns =
                       map (\<lambda>col.
                              \<lparr>column_name = row_get col ''column_name'',
                               data_type = row_get col ''data_type'',
                               is_nullable = row_get col ''is_nullable'',
                               column_default = row_get col ''column_default'',
                               character_maximum_length = row_get col ''character_maximum_length'',
                               numeric_precision = row_get col ''numeric_precision'',
                               numeric_scale = row_get col ''numeric_scale'',
                               is_primary_key =
                                 (row_get col ''column_name''
                                    \<in> set (js_Set (map (\<lambda>row. row_get row ''column_name'')
                                                     (pg_rows pkResult))))\<rparr>)
                           (pg_rows columnResult),
                     td_indexes = infos\<rparr>)"
  using assms by (simp add: describeTable_def Let_def split: option.splits)

text \<open>
  C10. When the primary-key query of describeTable returns no row, no index of the result
  is marked primary, whatever its definition is, although the empty list of key columns
  joins to the empty string, which every definition contains. The result exists whenever
  every index definition is a string.
\<close>

theorem describeTable_no_primary_key:
  assumes "client_query env s columnQuery
             (JArray [JPrim (CText (case schema of Some given \<Rightarrow> given | None \<Rightarrow> ''public'')),
                      JPrim (CText tableName)]) = (Inr (Result columnResult), s1)"
    and "pg_rows columnResult \<noteq> []"
    and "client_query env s1 indexQuery
             (JArray [JPrim (CText (case schema of Some given \<Rightarrow> given | None \<Rightarrow> ''public'')),
                      JPrim (CText tableName)]) = (Inr (Result indexResult), s2)"
    and "client_query env s2 pkQuery
             (JArray [JPrim (CText (case schema of Some given \<Rightarrow> given | None \<Rightarrow> ''public'')),
                      JPrim (CText tableName)]) = (Inr (Result pkResult), s3)"
    and "pg_rows pkResult = []"
  shows "(\<forall>d. fst (describeTable env s tableName schema) = Inr d \<longrightarrow>
            (\<forall>i \<in> set (td_indexes d). \<not> is_primary i)) \<and>
         ((\<forall>r \<in> set (pg_rows indexResult). \<exists>t. row_get r ''index_definition'' = CText t) \<longrightarrow>
            (\<exists>d. fst (describeTable env s tableName schema) = Inr d \<and>
                 length (td_indexes d) = length (pg_rows indexResult))) \<and>
         includes_str definition_text
           (join (js_Set (map (\<lambda>row. row_get row ''column_name'') (pg_rows pkResult))) '', '')"
proof -
  have pk: "js_Set (map (\<lambda>row. row_get row ''column_name'') (pg_rows pkResult)) = []"
    using assms(5) by (simp add: js_Set_def)
  note d0 = describeTable_success [OF assms(1-4), unfolded pk]
  have d: "\<And>infos. map_indexes [] (pg_rows indexResult) = Some infos \<Longrightarrow>
             \<exists>d. fst (describeTable env s tableName schema) = Inr d \<and> td_indexes d = infos"
    using d0 by simp
  have f: "map_indexes [] (pg_rows indexResult) = None \<Longrightarrow>
             fst (describeTable env s tableName schema) = Inl TypeError"
    using d0 by simp
  have 1: "\<forall>d. fst (describeTable env s tableName schema) = Inr d \<longrightarrow>
            (\<forall>i \<in> set (td_indexes d). \<not> is_primary i)"
  proof (intro allI impI)
    fix d assume r: "fst (describeTable env s tableName schema) = Inr d"
    then obtain infos where m: "map_indexes [] (pg_rows indexResult) = Some infos"
      using f by (cases "map_indexes [] (pg_rows indexResult)") auto
    then have "td_indexes d = infos" using d [OF m] r by auto
    then show "\<forall>i \<in> set (td_indexes d). \<not> is_primary i"
      using map_indexes_no_key [OF m] by simp
  qed
  have 2: "(\<forall>r \<in> set (pg_rows indexResult). \<exists>t. row_get r ''index_definition'' = CText t) \<longrightarrow>
            (\<exists>d. fst (describeTable env s tableName schema) = Inr d \<and>
                 length (td_indexes d) = length (pg_rows indexResult))"
  proof
    assume "\<forall>r \<in> set (pg_rows indexResult). \<exists>t. row_get r ''index_definition'' = CText t"
    then obtain infos where "map_indexes [] (pg_rows indexResult) = Some infos"
      "length infos = length (pg_rows indexResult)"
      using map_indexes_text by blast
    then show "\<exists>d. fst (describeTable env s tableName schema) = Inr d \<and>
                 length (td_indexes d) = length (pg_rows indexResult)"
      using d by blast
  qed
  have 3: "includes_str definition_text
           (join (js_Set (map (\<lambda>row. row_get row ''column_name'') (pg_rows pkResult))) '', '')"
    using pk by (simp add: includes_str_empty)
  show ?thesis using 1 2 3 by blast
qed


theorem describeTable_no_primary_key_witness:
  "\<exists>d. fst (describeTable
            (scripted_env (\<lambda>text values.
               if text = columnQuery then
                 Inr (Result \<lparr>pg_rows = [[(''column_name'', CText ''title''), (''data_type'', CText ''text''),
                                   (''is_nullable'', CText ''YES''), (''column_default'', CNull),
                                   (''character_maximum_length'', CNull),
                                   (''numeric_precision'', CNull), (''numeric_scale'', CNull)]],
                      pg_rowCount = Some 1, pg_command = Some ''SELECT'', pg_fields = None\<rparr>)
               else if text = indexQuery then
                 Inr (Result \<lparr>pg_rows = [[(''index_name'', CText ''notes_title_idx''),
                                   (''index_definition'',
                                    CText ''CREATE INDEX notes_title_idx ON public.notes USING btree (title)'')]],
                      pg_rowCount = Some 1, pg_command = Some ''SELECT'', pg_fields = None\<rparr>)
               else
                 Inr (Result \<lparr>pg_rows = [], pg_rowCount = Some 0, pg_command = Some ''SELECT'',
                              pg_fields = None\<rparr>)) 1)
            0 ''notes'' None) = Inr d \<and>
       td_indexes d =
         [\<lparr>index_name = CText ''notes_title_idx'',
           index_definition = CText ''CREATE INDEX notes_title_idx ON public.notes USING btree (title)'',
           is_primary = False, is_unique = False\<rparr>] \<and>
       (\<forall>i \<in> set (td_indexes d). \<not> is_primary i)"
proof -
  let ?cols = "\<lparr>pg_rows = [[(''column_name'', CText ''title''), (''data_type'', CText ''text''),
                                   (''is_nullable'', CText ''YES''), (''column_default'', CNull),
                                   (''character_maximum_length'', CNull),
                                   (''numeric_precision'', CNull), (''numeric_scale'', CNull)]],
                      pg_rowCount = Some 1, pg_command = Some ''SELECT'', pg_fields = None\<rparr>"
  let ?idx = "\<lparr>pg_rows = [[(''index_name'', CText ''notes_title_idx''),
                                   (''index_definition'',
                                    CText ''CREATE INDEX notes_title_idx ON public.notes USING btree (title)'')]],
                      pg_rowCount = Some 1, pg_command = Some ''SELECT'', pg_fields = None\<rparr>"
  let ?pk = "\<lparr>pg_rows = [], pg_rowCount = Some 0, pg_command = Some ''SELECT'', pg_fields = None\<rparr>"
  let ?env = "scripted_env (\<lambda>text values.
               if text = columnQuery then Inr (Result ?cols)
               else if text = indexQuery then Inr (Result ?idx)
               else Inr (Result ?pk)) 1"
  let ?vals = "JArray [JPrim (CText (case None of Some given \<Rightarrow> given | None \<Rightarrow> ''public'')),
                       JPrim (CText ''notes'')]"
  have ne: "indexQuery \<noteq> columnQuery" "pkQuery \<noteq> columnQuery" "pkQuery \<noteq> indexQuery"
    by (simp_all add: columnQuery_def indexQuery_def pkQuery_def)
  have q1: "client_query ?env 0 columnQuery ?vals = (Inr (Result ?cols), 1)"
    by (simp add: scripted_env_def)
  have q2: "client_query ?env 1 indexQuery ?vals = (Inr (Result ?idx), 2)"
    using ne by (simp add: scripted_env_def)
  have q3: "client_query ?env 2 pkQuery ?vals = (Inr (Result ?pk), 3)"
    using ne by (simp add: scripted_env_def)
  have c: "pg_rows ?cols \<noteq> []" by simp
  have e: "pg_rows ?pk = []" by simp
  have t: "\<forall>r \<in> set (pg_rows ?idx). \<exists>t. row_get r ''index_definition'' = CText t"
    by (simp add: row_get_def)
  note claim = describeTable_no_primary_key [OF q1 c q2 q3 e]
  have v: "map_indexes [] (pg_rows ?idx) =
         Some [\<lparr>index_name = CText ''notes_title_idx'',
           index_definition = CText ''CREATE INDEX notes_title_idx ON public.notes USING btree (title)'',
           is_primary = False, is_unique = False\<rparr>]"
    by (simp add: indexInfo_def row_get_def toLowerCase_def)
  have d: "fst (describeTable ?env 0 ''notes'' None) =
           Inr \<lparr>td_schema = ''public'', td_table = ''notes'',
                td_columns = [\<lparr>column_name = CText ''title'', data_type = CText ''text'',
                               is_nullable = CText ''YES'', column_default = CNull,
                               character_maximum_length = CNull, numeric_precision = CNull,
                               numeric_scale = CNull, is_primary_key = False\<rparr>],
                td_indexes = [\<lparr>index_name = CText ''notes_title_idx'',
                   index_definition = CText ''CREATE INDEX notes_title_idx ON public.notes USING btree (title)'',
                   is_primary = False, is_unique = False\<rparr>]\<rparr>"
    using describeTable_success [OF q1 c q2 q3] v by (simp add: js_Set_def row_get_def)
  show ?thesis using claim d by simp
qed

section \<open>handleExecuteQuery: validation of the parameters\<close>

text \<open>
  C9 (amended). An invocation whose \<^verbatim>\<open>params\<close> is truthy and not an array, or is an
  array with an element that is not a string, a number, a boolean or null, fails with an
  INVALID_PARAMS error: no method of the client has been called and the state is untouched.
  A falsy \<^verbatim>\<open>params\<close> (undefined, null, false, 0, the empty string) is handled as an
  absent one.
\<close>

theorem handleExecuteQuery_invalid_params:
  "((truthy (arg args ''params'') \<and> \<not> isArray (arg args ''params'')) \<or>
    (\<exists>xs. arg args ''params'' = JArray xs \<and> (\<exists>x \<in> set xs. \<not> permitted_param x)) \<longrightarrow>
      (\<exists>m. handleExecuteQuery env s isConfigured args
             = (Inl (Managed \<lparr>code = INVALID_PARAMS, message = m, details = None\<rparr>), [], s))) \<and>
   (\<not> truthy (arg args ''params'') \<and> arg args' ''query'' = arg args ''query'' \<and>
    arg args' ''params'' = JPrim CUndefined \<longrightarrow>
      handleExecuteQuery env s isConfigured args = handleExecuteQuery env s isConfigured args')"
proof (intro conjI impI)
  assume "(truthy (arg args ''params'') \<and> \<not> isArray (arg args ''params'')) \<or>
    (\<exists>xs. arg args ''params'' = JArray xs \<and> (\<exists>x \<in> set xs. \<not> permitted_param x))"
  then consider (shape) "truthy (arg args ''params'')" "\<not> isArray (arg args ''params'')"
    | (element) xs where "arg args ''params'' = JArray xs" "params_rejected xs"
    using params_rejected_iff by blast
  then show "\<exists>m. handleExecuteQuery env s isConfigured args
             = (Inl (Managed \<lparr>code = INVALID_PARAMS, message = m, details = None\<rparr>), [], s)"
  proof cases
    case shape
    then show ?thesis by (simp add: handleExecuteQuery_def)
  next
    case element
    then show ?thesis by (simp add: handleExecuteQuery_def)
  qed
next
  assume a: "\<not> truthy (arg args ''params'') \<and> arg args' ''query'' = arg args ''query'' \<and>
    arg args' ''params'' = JPrim CUndefined"
  then have "\<And>s1 q. executeQuery env s1 q (arg args ''params'') = executeQuery env s1 q (JPrim CUndefined)"
    by (rule executeQuery_falsy_params [OF conjunct1])
  then show "handleExecuteQuery env s isConfigured args = handleExecuteQuery env s isConfigured args'"
    using a by (simp add: handleExecuteQuery_def split: prod.splits option.splits)
qed

theorem handleExecuteQuery_invalid_params_witness:
  "handleExecuteQuery (scripted_env (\<lambda>text values. Inl (ErrorObject ''unused'')) 0) 0 True
     [(''query'', JPrim (CText ''SELECT $1'')), (''params'', JObject [(''0'', JPrim (CInt 1))])]
   = (Inl (Managed \<lparr>code = INVALID_PARAMS, message = ''params must be an array'',
                     details = None\<rparr>), [], 0) \<and>
   handleExecuteQuery (scripted_env (\<lambda>text values. Inl (ErrorObject ''unused'')) 0) 0 True
     [(''query'', JPrim (CText ''SELECT $1'')),
      (''params'', JArray [JPrim (CInt 1), JArray [JPrim (CInt 2)]])]
   = (Inl (Managed \<lparr>code = INVALID_PARAMS,
                     message = ''Query parameters must be string, number, boolean, or null'',
                     details = None\<rparr>), [], 0) \<and>
   handleExecuteQuery (scripted_env (\<lambda>text values. Inl (ErrorObject ''unused'')) 0) 0 True
     [(''query'', JPrim (CText ''SELECT 1'')), (''params'', JPrim (CBool False))]
   = handleExecuteQuery (scripted_env (\<lambda>text values. Inl (ErrorObject ''unused'')) 0) 0 True
     [(''query'', JPrim (CText ''SELECT 1''))]"
proof -
  let ?env = "scripted_env (\<lambda>text values. Inl (ErrorObject ''unused'')) 0"
  let ?a1 = "[(''query'', JPrim (CText ''SELECT $1'')), (''params'', JObject [(''0'', JPrim (CInt 1))])]"
  let ?a2 = "[(''query'', JPrim (CText ''SELECT $1'')),
      (''params'', JArray [JPrim (CInt 1), JArray [JPrim (CInt 2)]])]"
  let ?a3 = "[(''query'', JPrim (CText ''SELECT 1'')), (''params'', JPrim (CBool False))]"
  let ?a4 = "[(''query'', JPrim (CText ''SELECT 1''))]"
  have h1: "truthy (arg ?a1 ''params'') \<and> \<not> isArray (arg ?a1 ''params'')"
    by (simp add: arg_def)
  have h2: "\<exists>xs. arg ?a2 ''params'' = JArray xs \<and> (\<exists>x \<in> set xs. \<not> permitted_param x)"
    by (simp add: arg_def)
  have h3: "\<not> truthy (arg ?a3 ''params'') \<and> arg ?a4 ''query'' = arg ?a3 ''query'' \<and>
            arg ?a4 ''params'' = JPrim CUndefined"
    by (simp add: arg_def)
  have 1: "\<exists>m. handleExecuteQuery ?env 0 True ?a1
             = (Inl (Managed \<lparr>code = INVALID_PARAMS, message = m, details = None\<rparr>), [], 0)"
    using handleExecuteQuery_invalid_params [where args = ?a1 and env = ?env and s = 0
        and isConfigured = True] h1 by simp
  have 2: "\<exists>m. handleExecuteQuery ?env 0 True ?a2
             = (Inl (Managed \<lparr>code = INVALID_PARAMS, message = m, details = None\<rparr>), [], 0)"
    using handleExecuteQuery_invalid_params [where args = ?a2 and env = ?env and s = 0
        and isConfigured = True] h2 by simp
  have 3: "handleExecuteQuery ?env 0 True ?a3 = handleExecuteQuery ?env 0 True ?a4"
    using handleExecuteQuery_invalid_params [where args = ?a3 and args' = ?a4 and env = ?env
        and s = 0 and isConfigured = True] h3 by simp
  have v1: "handleExecuteQuery ?env 0 True ?a1
   = (Inl (Managed \<lparr>code = INVALID_PARAMS, message = ''params must be an array'',
                     details = None\<rparr>), [], 0)"
    using 1 by (simp add: handleExecuteQuery_def arg_def)
  have v2: "handleExecuteQuery ?env 0 True ?a2
   = (Inl (Managed \<lparr>code = INVALID_PARAMS,
                     message = ''Query parameters must be string, number, boolean, or null'',
                     details = None\<rparr>), [], 0)"
    using 2 by (simp add: handleExecuteQuery_def arg_def)
  show ?thesis using v1 v2 3 by simp
qed


text \<open>
  With \<^verbatim>\<open>params: 0\<close>, which is not an array, the invocation connects and executes the
  statement with no parameters.
\<close>

theorem handleExecuteQuery_falsy_params_counterexample:
  "handleExecuteQuery
     (scripted_env (\<lambda>text values.
        Inr (Result \<lparr>pg_rows = [[(''n'', CInt 1)]], pg_rowCount = Some 1,
                     pg_command = Some ''SELECT'',
                     pg_fields = Some [\<lparr>field_name = ''n'', field_dataTypeID = 23\<rparr>]\<rparr>)) 4)
     0 True [(''query'', JPrim (CText ''SELECT 1 AS n'')), (''params'', JPrim (CInt 0))]
   = (Inr \<lparr>rows = Some [[(''n'', CInt 1)]], rowCount = 1, command = ''SELECT'',
           qr_fields = [\<lparr>name = ''n'', dataTypeID = 23, dataTypeName = ''int4''\<rparr>],
           executionTime = 4\<rparr>,
      [Connect,
       Log ''QueryExecutor: Executing query''
         [(''command'', JPrim (CText ''SELECT 1 AS n'')), (''paramCount'', JPrim (CInt 0))],
       Query ''SELECT 1 AS n'' (JArray []),
       Log ''QueryExecutor: Query completed''
         [(''rowCount'', JPrim (CInt 1)), (''executionTime'', JPrim (CInt 4)),
          (''command'', JPrim (CText ''SELECT''))],
       End],
      4)"
  by (simp add: handleExecuteQuery_def executeQuery_def scripted_env_def arg_def Let_def
        resolveTypeName_def PG_DATA_TYPES_def)

section \<open>listTables: the statement sent and the rows returned\<close>













end
